theory Spec2Isabelle
  imports Complex_Main
begin

section \<open>Numbers held by the arrays\<close>

text \<open>
  The arrays of \<^verbatim>\<open>anchors.py\<close> hold floating-point numbers. The model keeps the exact
  real value of every finite entry (rounding is not modelled) and adds the three special
  results that the source's operations produce from finite operands without raising:
  the two infinities and not-a-number. Zero carries no sign: a positive number divided
  by zero is \<open>PInf\<close>. Inputs (boxes, scales, ratios, thresholds, rates) are finite reals.
  Theorems about computed numbers therefore speak of the exact values; the comparisons
  of the matcher are made on them.
\<close>

datatype fval = Fin real | PInf | NInf | NaN

fun fneg :: "fval \<Rightarrow> fval" where
  "fneg (Fin a) = Fin (- a)"
| "fneg PInf = NInf"
| "fneg NInf = PInf"
| "fneg NaN = NaN"

fun fadd :: "fval \<Rightarrow> fval \<Rightarrow> fval" where
  "fadd (Fin a) (Fin b) = Fin (a + b)"
| "fadd NaN _ = NaN"
| "fadd _ NaN = NaN"
| "fadd PInf NInf = NaN"
| "fadd NInf PInf = NaN"
| "fadd PInf _ = PInf"
| "fadd _ PInf = PInf"
| "fadd NInf _ = NInf"
| "fadd _ NInf = NInf"

definition fsub :: "fval \<Rightarrow> fval \<Rightarrow> fval" where
  "fsub a b = fadd a (fneg b)"

text \<open>The sign of an infinite product or quotient: \<open>PInf\<close> when the signs agree.\<close>

definition signed_inf :: "bool \<Rightarrow> fval" where
  "signed_inf positive = (if positive then PInf else NInf)"

fun fmul :: "fval \<Rightarrow> fval \<Rightarrow> fval" where
  "fmul (Fin a) (Fin b) = Fin (a * b)"
| "fmul NaN _ = NaN"
| "fmul _ NaN = NaN"
| "fmul (Fin a) PInf = (if a = 0 then NaN else signed_inf (0 < a))"
| "fmul (Fin a) NInf = (if a = 0 then NaN else signed_inf (a < 0))"
| "fmul PInf (Fin b) = (if b = 0 then NaN else signed_inf (0 < b))"
| "fmul NInf (Fin b) = (if b = 0 then NaN else signed_inf (b < 0))"
| "fmul PInf PInf = PInf"
| "fmul NInf NInf = PInf"
| "fmul PInf NInf = NInf"
| "fmul NInf PInf = NInf"

fun fdiv :: "fval \<Rightarrow> fval \<Rightarrow> fval" where
  "fdiv (Fin a) (Fin b) =
     (if b \<noteq> 0 then Fin (a / b)
      else if a = 0 then NaN else signed_inf (0 < a))"
| "fdiv NaN _ = NaN"
| "fdiv _ NaN = NaN"
| "fdiv (Fin a) _ = Fin 0"
| "fdiv PInf (Fin b) = signed_inf (0 \<le> b)"
| "fdiv NInf (Fin b) = signed_inf (b < 0)"
| "fdiv _ _ = NaN"

fun fsqrt :: "fval \<Rightarrow> fval" where
  "fsqrt (Fin a) = (if a < 0 then NaN else Fin (sqrt a))"
| "fsqrt PInf = PInf"
| "fsqrt _ = NaN"

fun flog :: "fval \<Rightarrow> fval" where
  "flog (Fin a) = (if a < 0 then NaN else if a = 0 then NInf else Fin (ln a))"
| "flog PInf = PInf"
| "flog _ = NaN"

text \<open>Comparisons: every comparison with \<open>NaN\<close> is false.\<close>

fun flt :: "fval \<Rightarrow> fval \<Rightarrow> bool" where
  "flt NaN _ = False"
| "flt _ NaN = False"
| "flt (Fin a) (Fin b) = (a < b)"
| "flt _ NInf = False"
| "flt PInf _ = False"
| "flt _ _ = True"

definition fgt :: "fval \<Rightarrow> fval \<Rightarrow> bool" where
  "fgt a b = flt b a"

fun fle :: "fval \<Rightarrow> fval \<Rightarrow> bool" where
  "fle NaN _ = False"
| "fle _ NaN = False"
| "fle (Fin a) (Fin b) = (a \<le> b)"
| "fle NInf _ = True"
| "fle _ PInf = True"
| "fle _ _ = False"

text \<open>
  The tensors of \<open>calc_overlap\<close> are single precision. An operation whose exact result
  lies beyond the largest single-precision number returns an infinity there; \<open>ovf\<close> is
  that step, and \<open>add32\<close>, \<open>sub32\<close>, \<open>mul32\<close> and \<open>div32\<close> apply it to every result.
  It is modelled in \<open>calc_overlap\<close>, whose entries the properties below bound and the
  matcher compares with its thresholds.
\<close>

definition f32_max :: real where
  "f32_max = (2 - 1 / 2 ^ 23) * 2 ^ 127"

fun ovf :: "fval \<Rightarrow> fval" where
  "ovf (Fin x) = (if f32_max < x then PInf else if x < - f32_max then NInf else Fin x)"
| "ovf v = v"

definition add32 :: "fval \<Rightarrow> fval \<Rightarrow> fval" where
  "add32 a b = ovf (fadd a b)"

definition sub32 :: "fval \<Rightarrow> fval \<Rightarrow> fval" where
  "sub32 a b = ovf (fsub a b)"

definition mul32 :: "fval \<Rightarrow> fval \<Rightarrow> fval" where
  "mul32 a b = ovf (fmul a b)"

definition div32 :: "fval \<Rightarrow> fval \<Rightarrow> fval" where
  "div32 a b = ovf (fdiv a b)"

text \<open>The larger of two entries, as \<^verbatim>\<open>torch.max(a, b)\<close> gives it: \<open>NaN\<close> if either is.\<close>

definition fmax :: "fval \<Rightarrow> fval \<Rightarrow> fval" where
  "fmax a b = (if a = NaN \<or> b = NaN then NaN else if fle a b then b else a)"


section \<open>Errors raised by the array libraries\<close>

datatype error =
    ZeroDivisionError  \<comment> \<open>\<^verbatim>\<open>np.arange\<close> with step 0\<close>
  | EmptyReduction     \<comment> \<open>\<^verbatim>\<open>max\<close> or \<^verbatim>\<open>argmax\<close> over an axis of length 0\<close>
  | ShapeMismatch      \<comment> \<open>operands that do not broadcast, or a \<^verbatim>\<open>view\<close> of the wrong size\<close>

section \<open>Array helpers\<close>

text \<open>
  \<^verbatim>\<open>np.arange(0, stop, step)\<close> on Python integers: the multiples of the step from 0 up to,
  and not including, the stop; empty when the step points away from the stop.
\<close>

definition arange_len :: "int \<Rightarrow> int \<Rightarrow> nat" where
  "arange_len stop step = nat (- ((- stop) div step))"

definition arange :: "int \<Rightarrow> int \<Rightarrow> error + int list" where
  "arange stop step =
     (if step = 0 then Inl ZeroDivisionError
      else Inr (map (\<lambda>i. int i * step) [0..<arange_len stop step]))"

text \<open>
  \<^verbatim>\<open>np.meshgrid(xs, ys)\<close>: two arrays of shape \<open>(len ys, len xs)\<close>; the first repeats
  \<open>xs\<close> in every row, the second holds \<open>ys ! i\<close> throughout row \<open>i\<close>. An argument of
  more than one dimension is flattened first.
\<close>

definition meshgrid :: "'a list \<Rightarrow> 'b list \<Rightarrow> 'a list list \<times> 'b list list" where
  "meshgrid xs ys = (replicate (length ys) xs, map (\<lambda>y. replicate (length xs) y) ys)"

definition flatten :: "'a list list \<Rightarrow> 'a list" where
  "flatten m = concat m"

text \<open>\<^verbatim>\<open>np.stack([a, b], axis=2).reshape([-1, 2])\<close> of two arrays of one shape.\<close>

definition stack_pairs :: "'a list list \<Rightarrow> 'a list list \<Rightarrow> ('a \<times> 'a) list" where
  "stack_pairs a b = concat (map2 zip a b)"

section \<open>Anchor generation\<close>

type_synonym fbox = "fval \<times> fval \<times> fval \<times> fval"

definition half :: fval where
  "half = Fin (1 / 2)"

definition generate_anchors ::
  "int \<times> int \<Rightarrow> real \<Rightarrow> real list \<Rightarrow> real list \<Rightarrow> int \<Rightarrow> error + fbox list" where
  "generate_anchors fmap_shape fmap_downsampled_rate scales ratios anchor_stride =
     (let (scales2, ratios2) = meshgrid scales ratios;
          scales1 = map Fin (flatten scales2);
          ratios1 = map Fin (flatten ratios2);
          heights = map2 (\<lambda>s r. fdiv s (fsqrt r)) scales1 ratios1;
          widths = map2 (\<lambda>s r. fmul s (fsqrt r)) scales1 ratios1
      in case arange (fst fmap_shape) anchor_stride of
           Inl e \<Rightarrow> Inl e
         | Inr ys \<Rightarrow>
      (case arange (snd fmap_shape) anchor_stride of
           Inl e \<Rightarrow> Inl e
         | Inr xs \<Rightarrow>
       (let shifts_y = map (\<lambda>i. fdiv (Fin (of_int i)) (Fin fmap_downsampled_rate)) ys;
            shifts_x = map (\<lambda>i. fdiv (Fin (of_int i)) (Fin fmap_downsampled_rate)) xs;
            (shifts_x2, shifts_y2) = meshgrid shifts_x shifts_y;
            (box_widths, box_centers_x) = meshgrid widths (flatten shifts_x2);
            (box_heights, box_centers_y) = meshgrid heights (flatten shifts_y2);
            box_centers = stack_pairs box_centers_y box_centers_x;
            box_sizes = stack_pairs box_heights box_widths
        in Inr (map2 (\<lambda>(cy, cx) (h, w).
                  (fsub cy (fmul half h), fsub cx (fmul half w),
                   fadd cy (fmul half h), fadd cx (fmul half w)))
                box_centers box_sizes))))"

section \<open>Overlap of two box sets\<close>

text \<open>A box as the callers supply it: one row of four finite numbers.\<close>

type_synonym box = "real \<times> real \<times> real \<times> real"

definition col0 :: "box \<Rightarrow> real" where "col0 = (\<lambda>(a, b, c, d). a)"
definition col1 :: "box \<Rightarrow> real" where "col1 = (\<lambda>(a, b, c, d). b)"
definition col2 :: "box \<Rightarrow> real" where "col2 = (\<lambda>(a, b, c, d). c)"
definition col3 :: "box \<Rightarrow> real" where "col3 = (\<lambda>(a, b, c, d). d)"

text \<open>\<^verbatim>\<open>v.view(-1, 1).repeat(1, n)\<close> and \<^verbatim>\<open>v.view(1, -1).repeat(n, 1)\<close>.\<close>

definition repeat_cols :: "'a list \<Rightarrow> nat \<Rightarrow> 'a list list" where
  "repeat_cols v n = map (replicate n) v"

definition repeat_rows :: "'a list \<Rightarrow> nat \<Rightarrow> 'a list list" where
  "repeat_rows v n = replicate n v"

text \<open>An operation applied entry by entry to two matrices of one shape.\<close>

definition ew :: "('a \<Rightarrow> 'b \<Rightarrow> 'c) \<Rightarrow> 'a list list \<Rightarrow> 'b list list \<Rightarrow> 'c list list" where
  "ew f a b = map2 (map2 f) a b"

text \<open>
  Both branches of the source's \<^verbatim>\<open>try\<close> compute the same expression, on different
  devices; the model has the expression once. The coordinates are finite, so the
  element-wise \<^verbatim>\<open>torch.max\<close> and \<^verbatim>\<open>torch.min\<close> of two coordinates are the real ones;
  every arithmetic step after them is a single-precision operation.
\<close>

definition calc_overlap :: "box list \<Rightarrow> box list \<Rightarrow> fval list list" where
  "calc_overlap query_boxes ref_boxes =
     (let n_queries = length query_boxes;
          n_refs = length ref_boxes;
          q_xmin = repeat_cols (map col0 query_boxes) n_refs;
          q_ymin = repeat_cols (map col1 query_boxes) n_refs;
          q_xmax = repeat_cols (map col2 query_boxes) n_refs;
          q_ymax = repeat_cols (map col3 query_boxes) n_refs;
          r_xmin = repeat_rows (map col0 ref_boxes) n_queries;
          r_ymin = repeat_rows (map col1 ref_boxes) n_queries;
          r_xmax = repeat_rows (map col2 ref_boxes) n_queries;
          r_ymax = repeat_rows (map col3 ref_boxes) n_queries;
          intersect_left = ew max q_xmin r_xmin;
          intersect_top = ew max q_ymin r_ymin;
          intersect_right = ew min q_xmax r_xmax;
          intersect_bottom = ew min q_ymax r_ymax;
          intersect_areas =
            ew mul32
               (ew (\<lambda>r l. fmax (Fin 0) (add32 (sub32 (Fin r) (Fin l)) (Fin 1)))
                   intersect_right intersect_left)
               (ew (\<lambda>b t. fmax (Fin 0) (add32 (sub32 (Fin b) (Fin t)) (Fin 1)))
                   intersect_bottom intersect_top);
          query_areas =
            repeat_cols
              (map (\<lambda>q. mul32 (add32 (sub32 (Fin (col2 q)) (Fin (col0 q))) (Fin 1))
                             (add32 (sub32 (Fin (col3 q)) (Fin (col1 q))) (Fin 1)))
                   query_boxes)
              n_refs;
          ref_areas =
            repeat_rows
              (map (\<lambda>r. mul32 (add32 (sub32 (Fin (col2 r)) (Fin (col0 r))) (Fin 1))
                             (add32 (sub32 (Fin (col3 r)) (Fin (col1 r))) (Fin 1)))
                   ref_boxes)
              n_queries
      in ew div32 intersect_areas
            (ew sub32 (ew add32 query_areas ref_areas) intersect_areas))"

section \<open>Matching anchors to ground-truth boxes\<close>

text \<open>
  The reductions \<^verbatim>\<open>max(dim=...)\<close> and \<^verbatim>\<open>argmax(dim=...)\<close> of the tensor library, on
  one slice: the largest entry and the index of its first occurrence; the first \<open>NaN\<close>
  wins over every number. The callers reject an empty slice before reducing.
\<close>

fun max_from :: "fval \<Rightarrow> nat \<Rightarrow> nat \<Rightarrow> fval list \<Rightarrow> fval \<times> nat" where
  "max_from m mi i [] = (m, mi)"
| "max_from m mi i (x # xs) =
     (if fle x m then max_from m mi (Suc i) xs
      else if x = NaN then (x, i)
      else max_from x i (Suc i) xs)"

fun max_with_index :: "fval list \<Rightarrow> fval \<times> nat" where
  "max_with_index [] = (NaN, 0)"
| "max_with_index (x # xs) = max_from x 0 0 (x # xs)"

definition columns :: "nat \<Rightarrow> 'a list list \<Rightarrow> 'a list list" where
  "columns n m = map (\<lambda>j. map (\<lambda>row. row ! j) m) [0..<n]"

definition scale_box :: "real \<Rightarrow> box \<Rightarrow> box" where
  "scale_box k = (\<lambda>(a, b, c, d). (a * k, b * k, c * k, d * k))"

text \<open>\<^verbatim>\<open>match[idx] = v\<close> for a tensor of indices, and for a boolean mask.\<close>

definition index_put :: "'a list \<Rightarrow> nat list \<Rightarrow> 'a \<Rightarrow> 'a list" where
  "index_put m idx v = foldl (\<lambda>acc i. acc[i := v]) m idx"

definition mask_put :: "'a list \<Rightarrow> bool list \<Rightarrow> 'a \<Rightarrow> 'a list" where
  "mask_put m msk v = map2 (\<lambda>x b. if b then v else x) m msk"

text \<open>\<^verbatim>\<open>xs[mask]\<close>: the entries of \<open>xs\<close> where the mask holds, in order.\<close>

definition mask_select :: "'a list \<Rightarrow> bool list \<Rightarrow> 'a list" where
  "mask_select xs msk = map fst (filter snd (zip xs msk))"

definition match_thresh_hi_default :: real where
  "match_thresh_hi_default = 7 / 10"

definition match_thresh_lo_default :: real where
  "match_thresh_lo_default = 3 / 10"

text \<open>
  The result is the triple \<open>(pos_idx, neg_idx, assigned_gt_boxes)\<close>. Without ground-truth
  boxes \<^verbatim>\<open>overlaps.max(dim=1)\<close> raises; without anchors \<^verbatim>\<open>overlaps.argmax(dim=0)\<close> does.
  The three assignments to \<open>match\<close> are \<open>match1\<close>, \<open>match2\<close>, \<open>match3\<close>, in the source's
  order. Moving \<open>match\<close> and \<open>anchor_idx\<close> to another device does not change their
  contents and is left out.
\<close>

definition calc_anchor_match ::
  "box list \<Rightarrow> box list \<Rightarrow> real \<Rightarrow> real \<Rightarrow> real \<Rightarrow> error + (nat list \<times> nat list \<times> box list)" where
  "calc_anchor_match anchors gt_boxes0 fmap_downsampled_rate match_thresh_hi match_thresh_lo =
     (let gt_boxes = map (scale_box fmap_downsampled_rate) gt_boxes0;
          overlaps = calc_overlap anchors gt_boxes
      in if gt_boxes = [] then Inl EmptyReduction
         else
          (let row_max = map max_with_index overlaps;
               max_ious_with_gt = map fst row_max;
               assigned_gt_idx = map snd row_max;
               assigned_gt_boxes = map (\<lambda>j. gt_boxes ! j) assigned_gt_idx
           in if anchors = [] then Inl EmptyReduction
              else
               (let idx_closest_to_gt =
                      map (\<lambda>c. snd (max_with_index c)) (columns (length gt_boxes) overlaps);
                    anchor_idx = [0..<length anchors];
                    match0 = replicate (length anchors) (- 1 :: real);
                    match1 = index_put match0 idx_closest_to_gt 1;
                    match2 = mask_put match1
                               (map (\<lambda>v. fgt v (Fin match_thresh_hi)) max_ious_with_gt) 1;
                    match3 = mask_put match2
                               (map (\<lambda>v. flt v (Fin match_thresh_lo)) max_ious_with_gt) 0;
                    pos_idx = mask_select anchor_idx (map (\<lambda>m. m = 1) match3);
                    neg_idx = mask_select anchor_idx (map (\<lambda>m. m = 0) match3)
                in Inr (pos_idx, neg_idx, assigned_gt_boxes))))"

section \<open>Regression targets\<close>

text \<open>\<^verbatim>\<open>t.view(n, 4)\<close> of a flat tensor: consecutive runs of four entries become the rows.\<close>

fun view4 :: "'a list \<Rightarrow> ('a \<times> 'a \<times> 'a \<times> 'a) list" where
  "view4 (a # b # c # d # rest) = (a, b, c, d) # view4 rest"
| "view4 _ = []"

text \<open>
  The vectors taken from \<open>ref_boxes\<close> and \<open>boxes\<close> are combined entry by entry. The tensor
  library stretches a one-row \<open>ref_boxes\<close> to the length of \<open>boxes\<close>; any other difference
  in length makes the arithmetic or the final \<^verbatim>\<open>view\<close> raise.
\<close>

definition calc_delta :: "box list \<Rightarrow> box list \<Rightarrow> box \<Rightarrow> error + fbox list" where
  "calc_delta boxes ref_boxes0 delta_std_dev =
     (let ref_boxes = (if length ref_boxes0 = 1 then replicate (length boxes) (hd ref_boxes0)
                       else ref_boxes0)
      in if length ref_boxes \<noteq> length boxes then Inl ShapeMismatch
         else
          (let ref_w = map (\<lambda>r. col2 r - col0 r) ref_boxes;
               ref_h = map (\<lambda>r. col3 r - col1 r) ref_boxes;
               ref_center_x = map2 (\<lambda>r rw. col0 r + 1 / 2 * rw) ref_boxes ref_w;
               ref_center_y = map2 (\<lambda>r rh. col1 r + 1 / 2 * rh) ref_boxes ref_h;
               w = map (\<lambda>b. col2 b - col0 b) boxes;
               h = map (\<lambda>b. col3 b - col1 b) boxes;
               center_x = map2 (\<lambda>b bw. col0 b + 1 / 2 * bw) boxes w;
               center_y = map2 (\<lambda>b bh. col1 b + 1 / 2 * bh) boxes h;
               dx = map2 (\<lambda>d bw. fdiv (Fin d) (Fin bw)) (map2 (-) ref_center_x center_x) w;
               dy = map2 (\<lambda>d bh. fdiv (Fin d) (Fin bh)) (map2 (-) ref_center_y center_y) h;
               dw = map2 (\<lambda>rw bw. flog (fdiv (Fin rw) (Fin bw))) ref_w w;
               dh = map2 (\<lambda>rh bh. flog (fdiv (Fin rh) (Fin bh))) ref_h h
           in Inr (map (\<lambda>(a, b, c, d).
                     (fdiv a (Fin (col0 delta_std_dev)), fdiv b (Fin (col1 delta_std_dev)),
                      fdiv c (Fin (col2 delta_std_dev)), fdiv d (Fin (col3 delta_std_dev))))
                   (view4 (dx @ dy @ dw @ dh)))))"

section \<open>The anchor set as the specification words it\<close>

text \<open>
  The specification describes the anchor set in four steps: all (scale, ratio) pairs;
  for each pair \<open>height = scale / sqrt ratio\<close> and \<open>width = scale * sqrt ratio\<close>; centre
  positions on the strided grid, rescaled by \<open>1 / downsample_rate\<close>; and for every
  combination the box \<open>center \<plusminus> 0.5 * size\<close>, shift positions in the outer index and
  pairs in the inner index. These definitions follow that wording over the reals and are
  compared with \<open>generate_anchors\<close> below.
\<close>

definition fin_box :: "box \<Rightarrow> fbox" where
  "fin_box = (\<lambda>(a, b, c, d). (Fin a, Fin b, Fin c, Fin d))"

definition spec_pairs :: "real list \<Rightarrow> real list \<Rightarrow> (real \<times> real) list" where
  "spec_pairs scales ratios = concat (map (\<lambda>ratio. map (\<lambda>scale. (scale, ratio)) scales) ratios)"

definition spec_size :: "real \<times> real \<Rightarrow> real \<times> real" where
  "spec_size = (\<lambda>(scale, ratio). (scale / sqrt ratio, scale * sqrt ratio))"

definition spec_strided :: "int \<Rightarrow> int \<Rightarrow> real list" where
  "spec_strided n stride =
     map (\<lambda>i. of_int (int i * stride)) [0..<nat \<lceil>of_int n / (of_int stride :: real)\<rceil>]"

definition spec_centers :: "int \<times> int \<Rightarrow> int \<Rightarrow> real \<Rightarrow> (real \<times> real) list" where
  "spec_centers fmap_shape stride rate =
     concat (map (\<lambda>y. map (\<lambda>x. (y / rate, x / rate)) (spec_strided (snd fmap_shape) stride))
                 (spec_strided (fst fmap_shape) stride))"

definition spec_box :: "real \<times> real \<Rightarrow> real \<times> real \<Rightarrow> box" where
  "spec_box = (\<lambda>(cy, cx) (height, width).
     (cy - 1 / 2 * height, cx - 1 / 2 * width, cy + 1 / 2 * height, cx + 1 / 2 * width))"

definition spec_anchors :: "int \<times> int \<Rightarrow> real \<Rightarrow> real list \<Rightarrow> real list \<Rightarrow> int \<Rightarrow> box list" where
  "spec_anchors fmap_shape rate scales ratios stride =
     concat (map (\<lambda>center. map (\<lambda>pair. spec_box center (spec_size pair))
                                (spec_pairs scales ratios))
                 (spec_centers fmap_shape stride rate))"


section \<open>Vocabulary of the properties\<close>

text \<open>
  A box is well formed when its second corner is not before its first on either axis.
  Two boxes are apart when, on some axis, one ends at least one unit before the other
  begins. An entry lies in the unit interval when it is a number between 0 and 1.
\<close>

definition well_formed :: "box \<Rightarrow> bool" where
  "well_formed b = (col0 b \<le> col2 b \<and> col1 b \<le> col3 b)"

definition apart :: "box \<Rightarrow> box \<Rightarrow> bool" where
  "apart q r = (col2 q + 1 \<le> col0 r \<or> col2 r + 1 \<le> col0 q \<or>
                col3 q + 1 \<le> col1 r \<or> col3 r + 1 \<le> col1 q)"

definition in_unit_interval :: "fval \<Rightarrow> bool" where
  "in_unit_interval v = (fle (Fin 0) v \<and> fle v (Fin 1))"

text \<open>
  A box is bounded when no coordinate exceeds \<open>2 ^ 62\<close> in magnitude: then every side is
  at most \<open>2 ^ 63 + 1\<close>, every area at most about \<open>2 ^ 126\<close>, and no step of
  \<open>calc_overlap\<close> reaches the single-precision limit of about \<open>2 ^ 128\<close>. A number is a
  single-precision value when it is \<open>m * 2 ^ e\<close> for a 24-bit \<open>m\<close> and an exponent of the
  format; a tensor row holds four of them.
\<close>

definition bounded_box :: "box \<Rightarrow> bool" where
  "bounded_box b = (\<bar>col0 b\<bar> \<le> 2 ^ 62 \<and> \<bar>col1 b\<bar> \<le> 2 ^ 62 \<and>
                    \<bar>col2 b\<bar> \<le> 2 ^ 62 \<and> \<bar>col3 b\<bar> \<le> 2 ^ 62)"

definition f32_value :: "real \<Rightarrow> bool" where
  "f32_value x = (\<exists>m e. x = of_int m * 2 powi e \<and> \<bar>m\<bar> < 2 ^ 24 \<and> - 149 \<le> e \<and> e \<le> 104)"

definition f32_box :: "box \<Rightarrow> bool" where
  "f32_box b = (f32_value (col0 b) \<and> f32_value (col1 b) \<and>
                f32_value (col2 b) \<and> f32_value (col3 b))"

text \<open>
  Entry \<open>[i, j]\<close> of the overlap matrix written as a function of the two boxes, with the
  source's pixel-inclusive \<open>+ 1\<close>; \<open>calc_overlap_entries\<close> below shows that
  \<open>calc_overlap\<close> computes exactly this for every pair. \<open>inter_area\<close> and \<open>box_area\<close>
  are the exact areas, which the single-precision ones equal when nothing overflows.
\<close>

definition side32 :: "real \<Rightarrow> real \<Rightarrow> fval" where
  "side32 hi lo = add32 (sub32 (Fin hi) (Fin lo)) (Fin 1)"

definition area32 :: "box \<Rightarrow> fval" where
  "area32 b = mul32 (side32 (col2 b) (col0 b)) (side32 (col3 b) (col1 b))"

definition inter32 :: "box \<Rightarrow> box \<Rightarrow> fval" where
  "inter32 q r =
     mul32 (fmax (Fin 0) (side32 (min (col2 q) (col2 r)) (max (col0 q) (col0 r))))
           (fmax (Fin 0) (side32 (min (col3 q) (col3 r)) (max (col1 q) (col1 r))))"

definition overlap_entry :: "box \<Rightarrow> box \<Rightarrow> fval" where
  "overlap_entry q r =
     div32 (inter32 q r) (sub32 (add32 (area32 q) (area32 r)) (inter32 q r))"

definition inter_area :: "box \<Rightarrow> box \<Rightarrow> real" where
  "inter_area q r =
     max 0 (min (col2 q) (col2 r) - max (col0 q) (col0 r) + 1) *
     max 0 (min (col3 q) (col3 r) - max (col1 q) (col1 r) + 1)"

definition box_area :: "box \<Rightarrow> real" where
  "box_area b = (col2 b - col0 b + 1) * (col3 b - col1 b + 1)"

text \<open>
  The label vector \<open>match\<close> of \<open>calc_anchor_match\<close> after its three assignments, named so
  that properties of the returned index sets can refer to it.
\<close>

definition match_labels :: "box list \<Rightarrow> box list \<Rightarrow> real \<Rightarrow> real \<Rightarrow> real \<Rightarrow> real list" where
  "match_labels anchors gt_boxes0 rate hi lo =
     (let gt_boxes = map (scale_box rate) gt_boxes0;
          overlaps = calc_overlap anchors gt_boxes;
          max_ious_with_gt = map (\<lambda>row. fst (max_with_index row)) overlaps;
          idx_closest_to_gt =
            map (\<lambda>c. snd (max_with_index c)) (columns (length gt_boxes) overlaps);
          match0 = replicate (length anchors) (- 1 :: real);
          match1 = index_put match0 idx_closest_to_gt 1;
          match2 = mask_put match1 (map (\<lambda>v. fgt v (Fin hi)) max_ious_with_gt) 1
      in mask_put match2 (map (\<lambda>v. flt v (Fin lo)) max_ious_with_gt) 0)"

text \<open>
  The regression target of one box as the specification words it: centre offsets over
  width and height, logarithms of the size ratios, each over its standard deviation.
\<close>

definition spec_delta_row :: "box \<Rightarrow> box \<Rightarrow> box \<Rightarrow> fbox" where
  "spec_delta_row b ref std =
     (let w = col2 b - col0 b; h = col3 b - col1 b;
          center_x = col0 b + 1 / 2 * w; center_y = col1 b + 1 / 2 * h;
          ref_w = col2 ref - col0 ref; ref_h = col3 ref - col1 ref;
          ref_center_x = col0 ref + 1 / 2 * ref_w; ref_center_y = col1 ref + 1 / 2 * ref_h
      in (fdiv (fdiv (Fin (ref_center_x - center_x)) (Fin w)) (Fin (col0 std)),
          fdiv (fdiv (Fin (ref_center_y - center_y)) (Fin h)) (Fin (col1 std)),
          fdiv (flog (fdiv (Fin ref_w) (Fin w))) (Fin (col2 std)),
          fdiv (flog (fdiv (Fin ref_h) (Fin h))) (Fin (col3 std))))"

text \<open>
  The concrete scenario of the specification: a \<open>4 \<times> 4\<close> feature map, downsample rate 1,
  scales \<open>[4]\<close>, ratios \<open>[1]\<close>, stride 1. The anchors are the \<open>4 \<times> 4\<close> boxes centred on
  the grid positions \<open>(y, x)\<close>, row by row; cell \<open>(2, 2)\<close> has index \<open>2 * 4 + 2 = 10\<close>.
\<close>

definition scenario_anchors :: "box list" where
  "scenario_anchors =
     map (\<lambda>(y, x). spec_box (y, x) (4, 4)) (List.product [0, 1, 2, 3] [0, 1, 2, 3])"


section \<open>Anchor generation: shape of the result\<close>

lemma zip_rep_concat:
  "zip (concat (map (replicate (length zs)) cs)) (concat (replicate (length cs) zs)) =
   concat (map (\<lambda>c. map (Pair c) zs) cs)"
  by (induction cs) (simp_all add: zip_replicate1)

lemma zip_concat_rep:
  "zip (concat (replicate (length ys) xs)) (concat (map (replicate (length xs)) ys)) =
   concat (map (\<lambda>y. map (\<lambda>x. (x, y)) xs) ys)"
  by (induction ys) (simp_all add: zip_replicate2)

lemma zip_concat_rep_swap:
  "zip (concat (map (replicate (length xs)) ys)) (concat (replicate (length ys) xs)) =
   concat (map (\<lambda>y. map (\<lambda>x. (y, x)) xs) ys)"
  by (induction ys) (simp_all add: zip_replicate1)

lemma stack_pairs_cols:
  "stack_pairs (map (replicate k) as) (map (replicate k) bs) =
   concat (map (replicate k) (zip as bs))"
proof (induction as arbitrary: bs)
  case Nil
  show ?case by (simp add: stack_pairs_def)
next
  case (Cons a as)
  then show ?case by (cases bs) (simp_all add: stack_pairs_def zip_replicate)
qed

lemma stack_pairs_rows:
  "stack_pairs (replicate n hs) (replicate n ws) = concat (replicate n (zip hs ws))"
  by (induction n) (simp_all add: stack_pairs_def)

lemma length_concat_replicate: "length (concat (replicate n xs)) = n * length xs"
  by (induction n) simp_all

lemma length_concat_map_replicate: "length (concat (map (replicate k) ys)) = length ys * k"
  by (induction ys) simp_all

lemma length_concat_map_map:
  "length (concat (map (\<lambda>c. map (f c) zs) cs)) = length cs * length zs"
  by (induction cs) simp_all

lemma meshgrid_scales:
  "map2 f (map Fin (flatten (fst (meshgrid scales ratios))))
          (map Fin (flatten (snd (meshgrid scales ratios)))) =
   map (\<lambda>(sc, r). f (Fin sc) (Fin r)) (concat (map (\<lambda>r. map (\<lambda>sc. (sc, r)) scales) ratios))"
  by (simp add: meshgrid_def flatten_def zip_map_map zip_concat_rep)

lemma meshgrid_shifts:
  "zip (flatten (snd (meshgrid sx sy))) (flatten (fst (meshgrid sx sy))) =
   concat (map (\<lambda>y. map (\<lambda>x. (y, x)) sx) sy)"
  by (simp add: meshgrid_def flatten_def zip_concat_rep_swap)

lemma length_flatten_meshgrid:
  "length (flatten (fst (meshgrid xs ys))) = length ys * length xs"
  "length (flatten (snd (meshgrid xs ys))) = length ys * length xs"
  by (simp_all add: meshgrid_def flatten_def length_concat_replicate length_concat_map_replicate)

lemma boxes_nested:
  assumes "length hs = length ws" and "length fy = length fx"
  shows "map2 g (stack_pairs (snd (meshgrid hs fy)) (snd (meshgrid ws fx)))
                (stack_pairs (fst (meshgrid hs fy)) (fst (meshgrid ws fx))) =
         concat (map (\<lambda>c. map (g c) (zip hs ws)) (zip fy fx))"
proof -
  have c: "stack_pairs (snd (meshgrid hs fy)) (snd (meshgrid ws fx)) =
           concat (map (replicate (length (zip hs ws))) (zip fy fx))"
    using assms by (simp add: meshgrid_def stack_pairs_cols)
  have s: "stack_pairs (fst (meshgrid hs fy)) (fst (meshgrid ws fx)) =
           concat (replicate (length (zip fy fx)) (zip hs ws))"
    using assms by (simp add: meshgrid_def stack_pairs_rows)
  have "map2 g (concat (map (replicate (length (zip hs ws))) (zip fy fx)))
               (concat (replicate (length (zip fy fx)) (zip hs ws))) =
        map (\<lambda>(c, z). g c z) (concat (map (\<lambda>c. map (Pair c) (zip hs ws)) (zip fy fx)))"
    by (simp only: zip_rep_concat)
  also have "\<dots> = concat (map (\<lambda>c. map (g c) (zip hs ws)) (zip fy fx))"
    by (simp add: map_concat comp_def)
  finally show ?thesis by (simp only: c s)
qed

lemma generate_anchors_nested:
  assumes "arange H s = Inr ys" and "arange W s = Inr xs"
  shows "generate_anchors (H, W) rate scales ratios s =
    Inr (concat (map (\<lambda>(cy, cx). map (\<lambda>(h, w).
           (fsub cy (fmul half h), fsub cx (fmul half w),
            fadd cy (fmul half h), fadd cx (fmul half w)))
          (map (\<lambda>(sc, r). (fdiv (Fin sc) (fsqrt (Fin r)), fmul (Fin sc) (fsqrt (Fin r))))
             (concat (map (\<lambda>r. map (\<lambda>sc. (sc, r)) scales) ratios))))
        (concat (map (\<lambda>y. map (\<lambda>x. (fdiv (Fin (of_int y)) (Fin rate),
                                        fdiv (Fin (of_int x)) (Fin rate))) xs) ys))))"
proof -
  let ?prs = "concat (map (\<lambda>r. map (\<lambda>sc. (sc, r)) scales) ratios)"
  let ?hs = "map (\<lambda>(sc, r). fdiv (Fin sc) (fsqrt (Fin r))) ?prs"
  let ?ws = "map (\<lambda>(sc, r). fmul (Fin sc) (fsqrt (Fin r))) ?prs"
  let ?sy = "map (\<lambda>i. fdiv (Fin (of_int i)) (Fin rate)) ys"
  let ?sx = "map (\<lambda>i. fdiv (Fin (of_int i)) (Fin rate)) xs"
  let ?fy = "flatten (snd (meshgrid ?sx ?sy))"
  let ?fx = "flatten (fst (meshgrid ?sx ?sy))"
  let ?g = "\<lambda>(cy, cx) (h, w).
           (fsub cy (fmul half h), fsub cx (fmul half w),
            fadd cy (fmul half h), fadd cx (fmul half w))"
  have unf: "generate_anchors (H, W) rate scales ratios s =
      Inr (map2 ?g (stack_pairs (snd (meshgrid ?hs ?fy)) (snd (meshgrid ?ws ?fx)))
                   (stack_pairs (fst (meshgrid ?hs ?fy)) (fst (meshgrid ?ws ?fx))))"
    using assms
    by (simp add: generate_anchors_def Let_def case_prod_beta meshgrid_scales)
  have len: "length ?fy = length ?fx"
    by (simp add: length_flatten_meshgrid)
  have zhw: "zip ?hs ?ws =
      map (\<lambda>(sc, r). (fdiv (Fin sc) (fsqrt (Fin r)), fmul (Fin sc) (fsqrt (Fin r)))) ?prs"
    by (simp add: zip_map_map zip_same_conv_map case_prod_beta)
  have zc: "zip ?fy ?fx = concat (map (\<lambda>y. map (\<lambda>x. (y, x)) ?sx) ?sy)"
    by (rule meshgrid_shifts)
  have zc': "concat (map (\<lambda>y. map (\<lambda>x. (y, x)) ?sx) ?sy) =
      concat (map (\<lambda>y. map (\<lambda>x. (fdiv (Fin (of_int y)) (Fin rate),
                                        fdiv (Fin (of_int x)) (Fin rate))) xs) ys)"
    by (simp add: comp_def)
  have "map2 ?g (stack_pairs (snd (meshgrid ?hs ?fy)) (snd (meshgrid ?ws ?fx)))
                (stack_pairs (fst (meshgrid ?hs ?fy)) (fst (meshgrid ?ws ?fx))) =
        concat (map (\<lambda>c. map (?g c) (zip ?hs ?ws)) (zip ?fy ?fx))"
    by (rule boxes_nested) (simp only: length_map, rule len)
  also have "\<dots> = concat (map (\<lambda>c. map (?g c)
          (map (\<lambda>(sc, r). (fdiv (Fin sc) (fsqrt (Fin r)), fmul (Fin sc) (fsqrt (Fin r)))) ?prs))
        (concat (map (\<lambda>y. map (\<lambda>x. (fdiv (Fin (of_int y)) (Fin rate),
                                        fdiv (Fin (of_int x)) (Fin rate))) xs) ys)))"
    by (simp only: zhw zc zc')
  finally have eq: "map2 ?g (stack_pairs (snd (meshgrid ?hs ?fy)) (snd (meshgrid ?ws ?fx)))
                (stack_pairs (fst (meshgrid ?hs ?fy)) (fst (meshgrid ?ws ?fx))) =
     concat (map (\<lambda>c. map (?g c)
          (map (\<lambda>(sc, r). (fdiv (Fin sc) (fsqrt (Fin r)), fmul (Fin sc) (fsqrt (Fin r)))) ?prs))
        (concat (map (\<lambda>y. map (\<lambda>x. (fdiv (Fin (of_int y)) (Fin rate),
                                        fdiv (Fin (of_int x)) (Fin rate))) xs) ys)))" .
  show ?thesis
    unfolding unf eq by (simp only: split_def)
qed

lemma arange_Inr: "s \<noteq> 0 \<Longrightarrow> arange n s = Inr (map (\<lambda>i. int i * s) [0..<arange_len n s])"
  by (simp add: arange_def)

lemma arange_len_ceiling: "arange_len n s = nat \<lceil>of_int n / (of_int s :: real)\<rceil>"
  by (simp add: arange_len_def ceiling_divide_eq_div)

lemma ceiling_div_nonneg: "0 < s \<Longrightarrow> 0 \<le> n \<Longrightarrow> 0 \<le> \<lceil>of_int n / (of_int s :: real)\<rceil>"
proof -
  assume "0 < s" and "0 \<le> n"
  then have "0 \<le> of_int n / (of_int s :: real)" by simp
  then show ?thesis by (simp add: zero_le_ceiling)
qed

text \<open>
  C3: on an \<open>H \<times> W\<close> feature map (\<open>H, W \<ge> 0\<close>) with a positive stride \<open>s\<close>,
  \<open>generate_anchors\<close> returns, and returns exactly
  \<open>ceil (H / s) * ceil (W / s) * k\<close> boxes, where \<open>k = len scales * len ratios\<close>.
\<close>

theorem generate_anchors_count:
  assumes "0 < s" and "0 \<le> H" and "0 \<le> W"
  shows "\<exists>bs. generate_anchors (H, W) rate scales ratios s = Inr bs \<and>
     int (length bs) =
       \<lceil>of_int H / (of_int s :: real)\<rceil> * \<lceil>of_int W / (of_int s :: real)\<rceil> *
       int (length scales * length ratios)"
proof -
  have s0: "s \<noteq> 0" using assms by simp
  have ly: "int (arange_len H s) = \<lceil>of_int H / (of_int s :: real)\<rceil>"
    using ceiling_div_nonneg [OF assms(1) assms(2)] by (simp add: arange_len_ceiling)
  have lx: "int (arange_len W s) = \<lceil>of_int W / (of_int s :: real)\<rceil>"
    using ceiling_div_nonneg [OF assms(1) assms(3)] by (simp add: arange_len_ceiling)
  note eq = generate_anchors_nested [OF arange_Inr [OF s0] arange_Inr [OF s0],
      of H W rate scales ratios]
  have "length (projr (generate_anchors (H, W) rate scales ratios s)) =
      arange_len H s * arange_len W s * (length ratios * length scales)"
    unfolding eq
    by (simp only: sum.sel split_def length_concat_map_map length_map length_upt diff_zero)
  then have "int (length (projr (generate_anchors (H, W) rate scales ratios s))) =
      int (arange_len H s) * int (arange_len W s) * int (length scales * length ratios)"
    by (simp add: mult.commute)
  then show ?thesis
    unfolding eq ly lx by simp
qed

theorem generate_anchors_count_witness:
  "(0::int) < 2 \<and> (0::int) \<le> 5 \<and> (0::int) \<le> 3 \<and>
   (\<exists>bs. generate_anchors (5, 3) 1 [1, 2] [1, 2, 4] 2 = Inr bs \<and> int (length bs) = 36)"
  using generate_anchors_count [of 2 5 3 1 "[1, 2]" "[1, 2, 4]"] by simp

lemma sizes_finite:
  assumes "\<forall>r\<in>set ratios. 0 < r"
  shows "map (\<lambda>(sc, r). (fdiv (Fin sc) (fsqrt (Fin r)), fmul (Fin sc) (fsqrt (Fin r))))
           (spec_pairs scales ratios) =
         map (\<lambda>p. (Fin (fst (spec_size p)), Fin (snd (spec_size p)))) (spec_pairs scales ratios)"
  using assms by (auto simp: spec_pairs_def spec_size_def)

lemma centers_finite:
  assumes "rate \<noteq> 0"
  shows "concat (map (\<lambda>y. map (\<lambda>x. (fdiv (Fin (of_int y)) (Fin rate),
                                      fdiv (Fin (of_int x)) (Fin rate)))
                          (map (\<lambda>i. int i * s) [0..<arange_len W s]))
                     (map (\<lambda>i. int i * s) [0..<arange_len H s])) =
         map (\<lambda>c. (Fin (fst c), Fin (snd c))) (spec_centers (H, W) s rate)"
  using assms
  by (simp add: spec_centers_def spec_strided_def arange_len_ceiling map_concat comp_def)

lemma box_finite:
  "(fsub (Fin cy) (fmul half (Fin h)), fsub (Fin cx) (fmul half (Fin w)),
    fadd (Fin cy) (fmul half (Fin h)), fadd (Fin cx) (fmul half (Fin w))) =
   fin_box (spec_box (cy, cx) (h, w))"
  by (simp add: fin_box_def spec_box_def fsub_def half_def)

lemma generate_anchors_spec_eq:
  assumes "0 < s" and "rate \<noteq> 0" and "\<forall>r\<in>set ratios. 0 < r"
  shows "generate_anchors (H, W) rate scales ratios s =
         Inr (map fin_box (spec_anchors (H, W) rate scales ratios s))"
proof -
  have s0: "s \<noteq> 0" using assms by simp
  note eq = generate_anchors_nested [OF arange_Inr [OF s0] arange_Inr [OF s0],
      of H W rate scales ratios]
  show ?thesis
    unfolding eq spec_pairs_def [symmetric] sizes_finite [OF assms(3)]
      centers_finite [OF assms(2)]
    by (simp add: spec_anchors_def map_concat comp_def split_def box_finite)
qed

text \<open>
  C4: for a positive stride, a non-zero downsample rate and positive ratios, the boxes
  returned by \<open>generate_anchors\<close> are exactly the boxes \<open>center \<plusminus> 0.5 * (height, width)\<close>
  in \<open>(y1, x1, y2, x2)\<close> order, with \<open>height = scale / sqrt ratio\<close> and
  \<open>width = scale * sqrt ratio\<close>, the centres on the strided grid divided by the
  downsample rate; the shift positions run in the outer index and the (scale, ratio)
  pairs in the inner index.
\<close>

theorem generate_anchors_formula:
  assumes "0 < s" and "rate \<noteq> 0" and "\<forall>r\<in>set ratios. 0 < r"
  shows "generate_anchors (H, W) rate scales ratios s =
         Inr (map fin_box (spec_anchors (H, W) rate scales ratios s))"
  using assms by (rule generate_anchors_spec_eq)

theorem generate_anchors_formula_witness:
  "generate_anchors (1, 2) 2 [6] [4] 1 =
     Inr [(Fin (- 3 / 2), Fin (- 6), Fin (3 / 2), Fin 6),
          (Fin (- 3 / 2), Fin (- 11 / 2), Fin (3 / 2), Fin (13 / 2))]"
  using generate_anchors_formula [of 1 2 "[4]" 1 2 "[6]"]
  by (simp add: spec_anchors_def spec_centers_def spec_strided_def spec_pairs_def
      spec_size_def spec_box_def fin_box_def numeral_2_eq_2)

section \<open>The overlap matrix\<close>

lemma grid_cols: "repeat_cols (map g qs) (length rs) = map (\<lambda>q. map (\<lambda>r. g q) rs) qs"
  by (simp add: repeat_cols_def map_replicate_const)

lemma grid_rows: "repeat_rows (map h rs) (length qs) = map (\<lambda>q. map h rs) qs"
  by (simp add: repeat_rows_def map_replicate_const)

lemma ew_grid:
  "ew f (map (\<lambda>q. map (A q) rs) qs) (map (\<lambda>q. map (B q) rs) qs) =
   map (\<lambda>q. map (\<lambda>r. f (A q r) (B q r)) rs) qs"
  by (simp add: ew_def zip_map_map zip_same_conv_map)

lemma calc_overlap_entries:
  "calc_overlap qs rs = map (\<lambda>q. map (\<lambda>r. overlap_entry q r) rs) qs"
  unfolding calc_overlap_def Let_def grid_cols grid_rows ew_grid
  by (simp only: overlap_entry_def inter32_def area32_def side32_def)

lemma calc_overlap_nth:
  "i < length qs \<Longrightarrow> j < length rs \<Longrightarrow> calc_overlap qs rs ! i ! j = overlap_entry (qs ! i) (rs ! j)"
  by (simp add: calc_overlap_entries)

lemma f32_max_big: "3 * ((2 ^ 63 + 1) * (2 ^ 63 + 1)) \<le> f32_max"
  by (simp add: f32_max_def)

lemma ovf_Fin: "\<bar>x\<bar> \<le> f32_max \<Longrightarrow> ovf (Fin x) = Fin x"
  by auto

lemma side32_Fin:
  assumes "\<bar>a\<bar> \<le> 2 ^ 62" and "\<bar>b\<bar> \<le> 2 ^ 62"
  shows "side32 a b = Fin (a - b + 1)"
proof -
  have m: "(2 ^ 63 + 1 :: real) \<le> f32_max" by (simp add: f32_max_def)
  have "\<bar>a - b\<bar> \<le> 2 ^ 63" using assms by simp
  moreover from this have "\<bar>a - b + 1\<bar> \<le> 2 ^ 63 + 1" by linarith
  ultimately have "\<bar>a - b\<bar> \<le> f32_max" "\<bar>a - b + 1\<bar> \<le> f32_max"
    using m by linarith+
  then show ?thesis
    by (simp add: side32_def add32_def sub32_def fsub_def ovf_Fin del: ovf.simps)
qed

lemma side_abs:
  assumes "\<bar>a\<bar> \<le> 2 ^ 62" and "\<bar>b\<bar> \<le> 2 ^ 62"
  shows "\<bar>a - b + 1\<bar> \<le> (2 ^ 63 + 1 :: real)"
  using assms by simp

lemma prod_abs:
  assumes "\<bar>x\<bar> \<le> (2 ^ 63 + 1 :: real)" and "\<bar>y\<bar> \<le> 2 ^ 63 + 1"
  shows "\<bar>x * y\<bar> \<le> (2 ^ 63 + 1) * (2 ^ 63 + 1)"
  unfolding abs_mult using assms by (intro mult_mono) simp_all

lemma box_area_abs:
  assumes "bounded_box b"
  shows "\<bar>box_area b\<bar> \<le> (2 ^ 63 + 1) * (2 ^ 63 + 1)"
  unfolding box_area_def
  using assms by (intro prod_abs side_abs) (simp_all add: bounded_box_def)

lemma area32_Fin:
  assumes "bounded_box b"
  shows "area32 b = Fin (box_area b)"
proof -
  have s: "side32 (col2 b) (col0 b) = Fin (col2 b - col0 b + 1)"
    "side32 (col3 b) (col1 b) = Fin (col3 b - col1 b + 1)"
    using assms by (simp_all add: bounded_box_def side32_Fin)
  have "\<bar>box_area b\<bar> \<le> f32_max"
    using box_area_abs [OF assms] f32_max_big by linarith
  then show ?thesis
    unfolding area32_def s mul32_def
    by (simp add: box_area_def ovf_Fin del: ovf.simps)
qed

lemma abs_max0: "\<bar>max 0 (z :: real)\<bar> \<le> \<bar>z\<bar>"
  by (simp add: max_def)

lemma inter_area_abs:
  assumes "bounded_box q" and "bounded_box r"
  shows "\<bar>inter_area q r\<bar> \<le> (2 ^ 63 + 1) * (2 ^ 63 + 1)"
proof -
  have x: "\<bar>min (col2 q) (col2 r)\<bar> \<le> 2 ^ 62" "\<bar>max (col0 q) (col0 r)\<bar> \<le> 2 ^ 62"
    "\<bar>min (col3 q) (col3 r)\<bar> \<le> 2 ^ 62" "\<bar>max (col1 q) (col1 r)\<bar> \<le> 2 ^ 62"
    using assms by (auto simp: bounded_box_def min_def max_def)
  have "\<bar>max 0 (min (col2 q) (col2 r) - max (col0 q) (col0 r) + 1)\<bar> \<le> 2 ^ 63 + 1"
    by (rule order_trans [OF abs_max0 side_abs [OF x(1,2)]])
  moreover have "\<bar>max 0 (min (col3 q) (col3 r) - max (col1 q) (col1 r) + 1)\<bar> \<le> 2 ^ 63 + 1"
    by (rule order_trans [OF abs_max0 side_abs [OF x(3,4)]])
  ultimately show ?thesis
    unfolding inter_area_def by (rule prod_abs)
qed

lemma fmax_zero_Fin: "fmax (Fin 0) (Fin x) = Fin (max 0 x)"
  by (simp add: fmax_def max_def)

lemma inter32_Fin:
  assumes "bounded_box q" and "bounded_box r"
  shows "inter32 q r = Fin (inter_area q r)"
proof -
  have x: "\<bar>min (col2 q) (col2 r)\<bar> \<le> 2 ^ 62" "\<bar>max (col0 q) (col0 r)\<bar> \<le> 2 ^ 62"
    "\<bar>min (col3 q) (col3 r)\<bar> \<le> 2 ^ 62" "\<bar>max (col1 q) (col1 r)\<bar> \<le> 2 ^ 62"
    using assms by (auto simp: bounded_box_def min_def max_def)
  have "\<bar>inter_area q r\<bar> \<le> f32_max"
    using inter_area_abs [OF assms] f32_max_big by linarith
  then show ?thesis
    unfolding inter32_def side32_Fin [OF x(1,2)] side32_Fin [OF x(3,4)] fmax_zero_Fin mul32_def
    by (simp add: inter_area_def ovf_Fin del: ovf.simps)
qed

lemma overlap_entry_bounded:
  assumes "bounded_box q" and "bounded_box r"
  shows "overlap_entry q r =
         ovf (fdiv (Fin (inter_area q r)) (Fin (box_area q + box_area r - inter_area q r)))"
proof -
  note a = box_area_abs [OF assms(1)] box_area_abs [OF assms(2)] inter_area_abs [OF assms]
  have "\<bar>box_area q + box_area r\<bar> \<le> f32_max"
    using a f32_max_big by linarith
  moreover have "\<bar>box_area q + box_area r - inter_area q r\<bar> \<le> f32_max"
    using a f32_max_big by linarith
  ultimately show ?thesis
    unfolding overlap_entry_def area32_Fin [OF assms(1)] area32_Fin [OF assms(2)]
      inter32_Fin [OF assms] add32_def sub32_def div32_def
    by (simp add: fsub_def ovf_Fin del: ovf.simps fdiv.simps)
qed

lemma f32_max_ge_1: "1 \<le> f32_max"
  by (simp add: f32_max_def)

lemma inter_area_nonneg: "0 \<le> inter_area q r"
  by (simp add: inter_area_def)

lemma inter_area_le_query:
  assumes "well_formed q"
  shows "inter_area q r \<le> box_area q"
proof -
  have "max 0 (min (col2 q) (col2 r) - max (col0 q) (col0 r) + 1) \<le> col2 q - col0 q + 1"
    using assms by (simp add: well_formed_def)
  moreover have "max 0 (min (col3 q) (col3 r) - max (col1 q) (col1 r) + 1) \<le> col3 q - col1 q + 1"
    using assms by (simp add: well_formed_def)
  ultimately show ?thesis
    unfolding inter_area_def box_area_def
    by (intro mult_mono) simp_all
qed

lemma inter_area_le_ref:
  assumes "well_formed r"
  shows "inter_area q r \<le> box_area r"
proof -
  have "max 0 (min (col2 q) (col2 r) - max (col0 q) (col0 r) + 1) \<le> col2 r - col0 r + 1"
    using assms by (simp add: well_formed_def)
  moreover have "max 0 (min (col3 q) (col3 r) - max (col1 q) (col1 r) + 1) \<le> col3 r - col1 r + 1"
    using assms by (simp add: well_formed_def)
  ultimately show ?thesis
    unfolding inter_area_def box_area_def
    by (intro mult_mono) simp_all
qed

lemma box_area_ge_1:
  assumes "well_formed b"
  shows "1 \<le> box_area b"
proof -
  have "1 * 1 \<le> (col2 b - col0 b + 1) * (col3 b - col1 b + 1)"
    using assms by (intro mult_mono) (simp_all add: well_formed_def)
  then show ?thesis by (simp add: box_area_def)
qed

lemma overlap_entry_unit:
  assumes "well_formed q" and "well_formed r" and "bounded_box q" and "bounded_box r"
  shows "\<exists>x. overlap_entry q r = Fin x \<and> 0 \<le> x \<and> x \<le> 1"
proof -
  let ?i = "inter_area q r"
  let ?u = "box_area q + box_area r - inter_area q r"
  have u: "0 < ?u" "?i \<le> ?u"
    using inter_area_le_query [OF assms(1), of r] inter_area_le_ref [OF assms(2), of q]
      box_area_ge_1 [OF assms(1)] box_area_ge_1 [OF assms(2)]
    by linarith+
  have lo: "0 \<le> ?i / ?u" using u inter_area_nonneg [of q r] by simp
  have hi: "?i / ?u \<le> 1" using u by simp
  have "\<bar>?i / ?u\<bar> \<le> f32_max"
    using lo hi f32_max_ge_1 by linarith
  then have "ovf (Fin (?i / ?u)) = Fin (?i / ?u)"
    by (rule ovf_Fin)
  moreover have "fdiv (Fin ?i) (Fin ?u) = Fin (?i / ?u)"
    using u by simp
  ultimately have "overlap_entry q r = Fin (?i / ?u)"
    by (simp only: overlap_entry_bounded [OF assms(3,4)])
  with lo hi show ?thesis by blast
qed

lemma inter_area_self:
  assumes "well_formed b"
  shows "inter_area b b = box_area b"
  using assms by (simp add: inter_area_def box_area_def well_formed_def max_def)

lemma inter_area_apart:
  assumes "apart q r"
  shows "inter_area q r = 0"
  using assms by (auto simp: inter_area_def apart_def max_def min_def)

lemma f32_value_int: "\<bar>k\<bar> < 2 ^ 24 \<Longrightarrow> f32_value (of_int k)"
  unfolding f32_value_def by (rule exI [of _ k], rule exI [of _ 0]) simp

lemmas eval_overlap = calc_overlap_entries overlap_entry_def inter32_def area32_def side32_def
  add32_def sub32_def mul32_def div32_def fmax_def fsub_def f32_max_def
  col0_def col1_def col2_def col3_def

text \<open>
  The properties of the entries are stated for bounded boxes, where no step of
  \<open>calc_overlap\<close> overflows. Their conclusions are the values \<open>1\<close> and \<open>0\<close> and the
  range \<open>[0, 1]\<close>, which rounding to nearest leaves in place: it is monotone, keeps
  \<open>0\<close> and \<open>1\<close>, and doubles a number exactly.
\<close>

text \<open>
  A box of side \<open>2 ^ 70\<close>: its area exceeds the single-precision range, intersection and
  areas are infinite, the union is \<open>inf + inf - inf\<close>, and the entry is not a number.
\<close>

theorem calc_overlap_self_counterexample:
  "(0 :: real) \<le> 2 ^ 70 \<and>
   calc_overlap [(0, 0, 2 ^ 70, 2 ^ 70)] [(0, 0, 2 ^ 70, 2 ^ 70)] = [[NaN]]"
  by (simp add: eval_overlap)

text \<open>
  C5 (amended): for every box with \<open>coord2 \<ge> coord1\<close> on each axis and coordinates of
  magnitude at most \<open>2 ^ 62\<close>, \<open>calc_overlap\<close> applied to the box and itself returns the
  \<open>1 \<times> 1\<close> matrix whose entry is \<open>1\<close>.
\<close>

theorem calc_overlap_self:
  assumes "x1 \<le> x2" and "y1 \<le> y2" and "bounded_box (x1, y1, x2, y2)"
  shows "calc_overlap [(x1, y1, x2, y2)] [(x1, y1, x2, y2)] = [[Fin 1]]"
proof -
  let ?b = "(x1, y1, x2, y2)"
  have wf: "well_formed ?b"
    using assms by (simp add: well_formed_def col0_def col1_def col2_def col3_def)
  have pos: "0 < box_area ?b"
    using box_area_ge_1 [OF wf] by linarith
  have "overlap_entry ?b ?b = ovf (fdiv (Fin (box_area ?b)) (Fin (box_area ?b)))"
    by (simp only: overlap_entry_bounded [OF assms(3) assms(3)] inter_area_self [OF wf])
      simp
  also have "\<dots> = ovf (Fin 1)"
    using pos by simp
  also have "\<dots> = Fin 1"
    using f32_max_ge_1 by (intro ovf_Fin) simp
  finally show ?thesis
    by (simp add: calc_overlap_entries)
qed

theorem calc_overlap_self_witness:
  "calc_overlap [(2, 3, 7, 5)] [(2, 3, 7, 5)] = [[Fin 1]]"
  using calc_overlap_self [of 2 7 3 5]
  by (simp add: bounded_box_def col0_def col1_def col2_def col3_def)

text \<open>
  Two boxes half a unit apart on the first axis: their rectangles are disjoint, yet the
  pixel-inclusive \<open>+ 1\<close> gives them an intersection of area \<open>1\<close> and the entry \<open>1 / 7\<close>.
\<close>

theorem calc_overlap_disjoint_counterexample:
  "col2 (0, 0, 1, 1) < col0 (3 / 2, 0, 5 / 2, 1) \<and>
   calc_overlap [(0, 0, 1, 1)] [(3 / 2, 0, 5 / 2, 1)] = [[Fin (1 / 7)]] \<and>
   Fin (1 / 7) \<noteq> Fin 0"
  by (simp add: eval_overlap)

text \<open>
  C6 (amended): for every pair of well-formed boxes whose coordinates are single-precision
  values of magnitude at most \<open>2 ^ 62\<close> and that lie at least one unit apart on some axis,
  the corresponding entry of \<open>calc_overlap\<close> equals \<open>0\<close>.
\<close>

theorem calc_overlap_apart:
  assumes "i < length query_boxes" and "j < length ref_boxes"
    and "well_formed (query_boxes ! i)" and "well_formed (ref_boxes ! j)"
    and "bounded_box (query_boxes ! i)" and "bounded_box (ref_boxes ! j)"
    and "f32_box (query_boxes ! i)" and "f32_box (ref_boxes ! j)"
    and "apart (query_boxes ! i) (ref_boxes ! j)"
  shows "calc_overlap query_boxes ref_boxes ! i ! j = Fin 0"
proof -
  let ?q = "query_boxes ! i" and ?r = "ref_boxes ! j"
  have "0 < box_area ?q + box_area ?r"
    using box_area_ge_1 [OF assms(3)] box_area_ge_1 [OF assms(4)] by linarith
  then have "fdiv (Fin 0) (Fin (box_area ?q + box_area ?r - 0)) = Fin 0"
    by simp
  moreover have "ovf (Fin 0) = Fin 0"
    using f32_max_ge_1 by (intro ovf_Fin) simp
  ultimately have "overlap_entry ?q ?r = Fin 0"
    by (simp only: overlap_entry_bounded [OF assms(5,6)] inter_area_apart [OF assms(9)])
  then show ?thesis
    using assms(1,2) by (simp add: calc_overlap_nth)
qed

theorem calc_overlap_apart_witness:
  "calc_overlap [(0, 0, 1, 1), (0, 0, 2, 2)] [(5, 5, 6, 6), (3, 0, 4, 1)] ! 1 ! 1 = Fin 0"
proof -
  have v: "f32_value 0" "f32_value 1" "f32_value 2" "f32_value 3" "f32_value 4"
    using f32_value_int [of 0] f32_value_int [of 1] f32_value_int [of 2]
      f32_value_int [of 3] f32_value_int [of 4] by simp_all
  show ?thesis
    using calc_overlap_apart [of 1 "[(0, 0, 1, 1), (0, 0, 2, 2)]" 1 "[(5, 5, 6, 6), (3, 0, 4, 1)]"] v
    by (simp add: well_formed_def apart_def bounded_box_def f32_box_def
        col0_def col1_def col2_def col3_def)
qed

text \<open>
  A box whose second corner lies one unit before its first has pixel-inclusive area \<open>0\<close>;
  with itself it has intersection \<open>0\<close> and union \<open>0\<close>, and the entry is \<open>0 / 0\<close>.
\<close>

theorem calc_overlap_range_counterexample:
  "calc_overlap [(0, 0, - 1, 0)] [(0, 0, - 1, 0)] = [[NaN]] \<and> \<not> in_unit_interval NaN"
  by (simp add: eval_overlap in_unit_interval_def)

text \<open>
  C7 (amended): for well-formed query and reference boxes with coordinates of magnitude
  at most \<open>2 ^ 62\<close>, \<open>calc_overlap\<close> returns a matrix with one row per query box, every row
  with one entry per reference box, and every entry in the closed interval \<open>[0, 1]\<close>.
\<close>

theorem calc_overlap_shape_range:
  assumes "\<forall>q\<in>set query_boxes. well_formed q \<and> bounded_box q"
    and "\<forall>r\<in>set ref_boxes. well_formed r \<and> bounded_box r"
  shows "length (calc_overlap query_boxes ref_boxes) = length query_boxes \<and>
         (\<forall>row\<in>set (calc_overlap query_boxes ref_boxes).
            length row = length ref_boxes \<and> (\<forall>v\<in>set row. in_unit_interval v))"
proof -
  have "in_unit_interval (overlap_entry q r)"
    if qm: "q \<in> set query_boxes" and rm: "r \<in> set ref_boxes" for q r
  proof -
    have "well_formed q" "well_formed r" "bounded_box q" "bounded_box r"
      using assms qm rm by blast+
    then obtain x where "overlap_entry q r = Fin x" "0 \<le> x" "x \<le> 1"
      using overlap_entry_unit [of q r] by blast
    then show ?thesis by (simp add: in_unit_interval_def)
  qed
  then show ?thesis
    by (auto simp: calc_overlap_entries)
qed

theorem calc_overlap_shape_range_witness:
  "length (calc_overlap [(0, 0, 1, 1), (0, 0, 2, 2)] [(1, 1, 2, 2)]) = 2 \<and>
   list_all (\<lambda>row. length row = 1 \<and> list_all in_unit_interval row)
     (calc_overlap [(0, 0, 1, 1), (0, 0, 2, 2)] [(1, 1, 2, 2)])"
  using calc_overlap_shape_range [of "[(0, 0, 1, 1), (0, 0, 2, 2)]" "[(1, 1, 2, 2)]"]
  by (simp add: well_formed_def bounded_box_def col0_def col1_def col2_def col3_def list_all_iff)

section \<open>The matcher\<close>

lemma length_calc_overlap: "length (calc_overlap qs rs) = length qs"
  by (simp add: calc_overlap_entries)

lemma length_index_put: "length (index_put m idx v) = length m"
  unfolding index_put_def by (induction idx arbitrary: m) simp_all

lemma length_mask_put: "length (mask_put m msk v) = min (length m) (length msk)"
  by (simp add: mask_put_def)

lemma nth_mask_put:
  "i < length m \<Longrightarrow> i < length msk \<Longrightarrow> mask_put m msk v ! i = (if msk ! i then v else m ! i)"
  by (simp add: mask_put_def)

lemma set_mask_select_upt:
  "length bs = n \<Longrightarrow> set (mask_select [0..<n] bs) = {i. i < n \<and> bs ! i}"
  by (force simp: mask_select_def set_zip image_iff)

lemma calc_anchor_match_returns:
  "anchors \<noteq> [] \<Longrightarrow> gt_boxes \<noteq> [] \<Longrightarrow>
   \<exists>r. calc_anchor_match anchors gt_boxes rate hi lo = Inr r"
  by (simp add: calc_anchor_match_def Let_def)

lemma length_match_labels: "length (match_labels anchors gt rate hi lo) = length anchors"
  by (simp add: match_labels_def Let_def length_mask_put length_index_put length_calc_overlap)

lemma calc_anchor_match_unfold:
  assumes "anchors \<noteq> []" and "gt \<noteq> []"
  shows "calc_anchor_match anchors gt rate hi lo =
     Inr (mask_select [0..<length anchors] (map (\<lambda>m. m = 1) (match_labels anchors gt rate hi lo)),
          mask_select [0..<length anchors] (map (\<lambda>m. m = 0) (match_labels anchors gt rate hi lo)),
          map (\<lambda>row. map (scale_box rate) gt ! snd (max_with_index row))
            (calc_overlap anchors (map (scale_box rate) gt)))"
  unfolding calc_anchor_match_def match_labels_def Let_def
  using assms by (simp add: comp_def)

lemma calc_anchor_match_Inr:
  assumes "calc_anchor_match anchors gt rate hi lo = Inr (pos, neg, asg)"
  shows "set pos = {i. i < length anchors \<and> match_labels anchors gt rate hi lo ! i = 1}"
    and "set neg = {i. i < length anchors \<and> match_labels anchors gt rate hi lo ! i = 0}"
proof -
  have ne: "anchors \<noteq> []" "gt \<noteq> []"
  proof -
    show "anchors \<noteq> []"
    proof
      assume "anchors = []"
      then have "calc_anchor_match anchors gt rate hi lo = Inl EmptyReduction"
        unfolding calc_anchor_match_def Let_def by simp
      with assms show False by simp
    qed
    show "gt \<noteq> []"
    proof
      assume "gt = []"
      then have "calc_anchor_match anchors gt rate hi lo = Inl EmptyReduction"
        unfolding calc_anchor_match_def Let_def by simp
      with assms show False by simp
    qed
  qed
  let ?m = "match_labels anchors gt rate hi lo"
  have pos: "pos = mask_select [0..<length anchors] (map (\<lambda>m. m = 1) ?m)"
    and neg: "neg = mask_select [0..<length anchors] (map (\<lambda>m. m = 0) ?m)"
    using assms unfolding calc_anchor_match_unfold [OF ne] by simp_all
  show "set pos = {i. i < length anchors \<and> ?m ! i = 1}"
    unfolding pos by (subst set_mask_select_upt) (auto simp: length_match_labels)
  show "set neg = {i. i < length anchors \<and> ?m ! i = 0}"
    unfolding neg by (subst set_mask_select_upt) (auto simp: length_match_labels)
qed

lemmas eval_match = calc_anchor_match_def scale_box_def columns_def index_put_def
  mask_put_def mask_select_def fgt_def match_thresh_hi_default_def
  match_thresh_lo_default_def Let_def

text \<open>
  C8: for every anchor set, ground-truth set and threshold pair, whenever
  \<open>calc_anchor_match\<close> returns (and it does return when neither set is empty), no anchor
  index appears in both \<open>pos_idx\<close> and \<open>neg_idx\<close>.
\<close>

theorem calc_anchor_match_disjoint:
  "(anchors \<noteq> [] \<and> gt_boxes \<noteq> [] \<longrightarrow>
      (\<exists>r. calc_anchor_match anchors gt_boxes rate hi lo = Inr r)) \<and>
   (calc_anchor_match anchors gt_boxes rate hi lo = Inr (pos_idx, neg_idx, asg) \<longrightarrow>
      set pos_idx \<inter> set neg_idx = {})"
proof (intro conjI impI)
  assume ne: "anchors \<noteq> [] \<and> gt_boxes \<noteq> []"
  show "\<exists>r. calc_anchor_match anchors gt_boxes rate hi lo = Inr r"
    by (rule calc_anchor_match_returns) (use ne in simp_all)
next
  assume r: "calc_anchor_match anchors gt_boxes rate hi lo = Inr (pos_idx, neg_idx, asg)"
  let ?m = "match_labels anchors gt_boxes rate hi lo"
  have False if p: "i \<in> set pos_idx" and n: "i \<in> set neg_idx" for i
  proof -
    have "?m ! i = 1" using p calc_anchor_match_Inr(1) [OF r] by simp
    moreover have "?m ! i = 0" using n calc_anchor_match_Inr(2) [OF r] by simp
    ultimately show False by simp
  qed
  then show "set pos_idx \<inter> set neg_idx = {}" by blast
qed

theorem calc_anchor_match_disjoint_witness:
  "calc_anchor_match [(0, 0, 9, 9), (0, 0, 3, 3)] [(0, 0, 0, 0), (0, 0, 3, 3)] 1
     match_thresh_hi_default match_thresh_lo_default =
     Inr ([1], [0], [(0, 0, 3, 3), (0, 0, 3, 3)]) \<and>
   set [1 :: nat] \<inter> set [0] = {}"
  using calc_anchor_match_disjoint [of "[(0, 0, 9, 9), (0, 0, 3, 3)]" "[(0, 0, 0, 0), (0, 0, 3, 3)]" 1
     match_thresh_hi_default match_thresh_lo_default "[1]" "[0]" "[(0, 0, 3, 3), (0, 0, 3, 3)]"]
  by (simp add: eval_overlap eval_match)

lemma match_labels_low:
  assumes "i < length anchors"
    and "flt (fst (max_with_index (calc_overlap anchors (map (scale_box rate) gt) ! i))) (Fin lo)"
  shows "match_labels anchors gt rate hi lo ! i = 0"
  using assms
  by (simp add: match_labels_def Let_def nth_mask_put length_mask_put length_index_put
      length_calc_overlap)

text \<open>
  C10: an anchor whose row-maximum overlap is strictly below \<open>match_thresh_lo\<close> never
  appears in the returned positive set, and is in the negative set, whether or not it is
  the best match of some ground-truth box: the negative assignment comes last.
\<close>

theorem calc_anchor_match_low_never_positive:
  assumes "calc_anchor_match anchors gt_boxes rate hi lo = Inr (pos_idx, neg_idx, asg)"
    and "i < length anchors"
    and "flt (fst (max_with_index (calc_overlap anchors (map (scale_box rate) gt_boxes) ! i)))
           (Fin lo)"
  shows "i \<notin> set pos_idx \<and> i \<in> set neg_idx"
  using calc_anchor_match_Inr [OF assms(1)] match_labels_low [OF assms(2,3), of hi] assms(2)
  by simp

theorem calc_anchor_match_low_never_positive_witness:
  "snd (max_with_index (map (\<lambda>row. row ! 0) (calc_overlap [(0, 0, 9, 9)] [(0, 0, 0, 0)]))) = 0 \<and>
   0 \<notin> set ([] :: nat list) \<and> (0 :: nat) \<in> set [0]"
  using calc_anchor_match_low_never_positive [of "[(0, 0, 9, 9)]" "[(0, 0, 0, 0)]" 1
     match_thresh_hi_default match_thresh_lo_default "[]" "[0]" "[(0, 0, 0, 0)]" 0]
  by (simp add: eval_overlap eval_match)

text \<open>
  One ground-truth box and two anchors: anchor \<open>0\<close> is the best match of the box with
  overlap \<open>1 / 25\<close>, below the default \<open>match_thresh_lo\<close>, and the returned positive set is
  empty.
\<close>

theorem calc_anchor_match_best_anchor_negative:
  "calc_overlap [(0, 0, 9, 9), (10, 0, 19, 9)] [(0, 0, 1, 1)] = [[Fin (1 / 25)], [Fin 0]] \<and>
   snd (max_with_index (map (\<lambda>row. row ! 0)
     (calc_overlap [(0, 0, 9, 9), (10, 0, 19, 9)] [(0, 0, 1, 1)]))) = 0 \<and>
   calc_anchor_match [(0, 0, 9, 9), (10, 0, 19, 9)] [(0, 0, 1, 1)] 1
     match_thresh_hi_default match_thresh_lo_default =
     Inr ([], [0, 1], [(0, 0, 1, 1), (0, 0, 1, 1)])"
  by (simp add: eval_overlap eval_match)

lemma max_from_index:
  "snd (max_from m mi i xs) = mi \<or> (i \<le> snd (max_from m mi i xs) \<and> snd (max_from m mi i xs) < i + length xs)"
proof (induction xs arbitrary: m mi i)
  case Nil
  show ?case by simp
next
  case (Cons x xs)
  show ?case
    using Cons.IH [of m mi "Suc i"] Cons.IH [of x i "Suc i"]
    by (auto simp del: fle.simps)
qed

lemma max_with_index_lt: "xs \<noteq> [] \<Longrightarrow> snd (max_with_index xs) < length xs"
proof (cases xs)
  case Nil
  then show "xs \<noteq> [] \<Longrightarrow> ?thesis" by simp
next
  case (Cons x ys)
  show ?thesis
    using max_from_index [of x 0 0 "x # ys"] Cons by (auto simp del: max_from.simps)
qed

lemma index_put_keeps:
  "i < length m \<Longrightarrow> m ! i = v \<Longrightarrow> index_put m idx v ! i = v"
  unfolding index_put_def
proof (induction idx arbitrary: m)
  case Nil
  then show ?case by simp
next
  case (Cons j idx)
  have "m[j := v] ! i = v"
    using Cons.prems by (cases "i = j") simp_all
  then show ?case
    using Cons.IH [of "m[j := v]"] Cons.prems by simp
qed

lemma index_put_nth:
  "i \<in> set idx \<Longrightarrow> i < length m \<Longrightarrow> index_put m idx v ! i = v"
proof (induction idx arbitrary: m)
  case Nil
  then show ?case by simp
next
  case (Cons j idx)
  show ?case
  proof (cases "i = j")
    case True
    have "index_put (m[j := v]) idx v ! i = v"
      using True Cons.prems by (intro index_put_keeps) simp_all
    then show ?thesis by (simp add: index_put_def)
  next
    case False
    then have "index_put (m[j := v]) idx v ! i = v"
      using Cons.prems by (intro Cons.IH) simp_all
    then show ?thesis by (simp add: index_put_def)
  qed
qed

lemma columns_nth: "j < n \<Longrightarrow> columns n m ! j = map (\<lambda>row. row ! j) m"
  by (simp add: columns_def)

lemma match_labels_best:
  assumes "anchors \<noteq> []" and "j < length gt"
    and i: "i = snd (max_with_index (map (\<lambda>row. row ! j)
                 (calc_overlap anchors (map (scale_box rate) gt))))"
    and lo: "\<not> flt (fst (max_with_index (calc_overlap anchors (map (scale_box rate) gt) ! i)))
                 (Fin lo)"
  shows "i < length anchors \<and> match_labels anchors gt rate hi lo ! i = 1"
proof -
  let ?ov = "calc_overlap anchors (map (scale_box rate) gt)"
  let ?idx = "map (\<lambda>c. snd (max_with_index c)) (columns (length (map (scale_box rate) gt)) ?ov)"
  have "length (map (\<lambda>row. row ! j) ?ov) = length anchors"
    by (simp add: length_calc_overlap)
  moreover from this have "map (\<lambda>row. row ! j) ?ov \<noteq> []"
    using assms(1) by (metis length_0_conv)
  ultimately have il: "i < length anchors"
    using max_with_index_lt [of "map (\<lambda>row. row ! j) ?ov"] i by simp
  have "columns (length (map (scale_box rate) gt)) ?ov ! j = map (\<lambda>row. row ! j) ?ov"
    using assms(2) by (simp add: columns_nth)
  then have "?idx ! j = i"
    using assms(2) i by (simp add: columns_def)
  moreover have "j < length ?idx"
    using assms(2) by (simp add: columns_def)
  ultimately have mem: "i \<in> set ?idx"
    using nth_mem by metis
  have m1: "index_put (replicate (length anchors) (- 1 :: real)) ?idx 1 ! i = 1"
    using mem il by (intro index_put_nth) simp_all
  show ?thesis
    using il lo m1
    by (simp add: match_labels_def Let_def nth_mask_put length_mask_put length_index_put
        length_calc_overlap)
qed

text \<open>
  C1 (amended): whenever \<open>calc_anchor_match\<close> returns, each anchor that is the
  column-argmax for some ground-truth box and whose row-maximum overlap is not strictly
  below \<open>match_thresh_lo\<close> is in the returned positive set, whatever \<open>match_thresh_hi\<close> is.
\<close>

theorem calc_anchor_match_best_positive:
  assumes "calc_anchor_match anchors gt_boxes rate hi lo = Inr (pos_idx, neg_idx, asg)"
    and "j < length gt_boxes"
    and "i = snd (max_with_index (map (\<lambda>row. row ! j)
                 (calc_overlap anchors (map (scale_box rate) gt_boxes))))"
    and "\<not> flt (fst (max_with_index (calc_overlap anchors (map (scale_box rate) gt_boxes) ! i)))
             (Fin lo)"
  shows "i \<in> set pos_idx"
proof -
  have "anchors \<noteq> []"
  proof
    assume "anchors = []"
    then have "calc_anchor_match anchors gt_boxes rate hi lo = Inl EmptyReduction"
      unfolding calc_anchor_match_def Let_def by simp
    with assms(1) show False by simp
  qed
  from match_labels_best [OF this assms(2,3,4), of hi] calc_anchor_match_Inr(1) [OF assms(1)]
  show ?thesis by simp
qed

theorem calc_anchor_match_best_positive_witness:
  "calc_anchor_match [(0, 0, 9, 9)] [(0, 0, 9, 4)] 1
     match_thresh_hi_default match_thresh_lo_default = Inr ([0], [], [(0, 0, 9, 4)]) \<and>
   calc_overlap [(0, 0, 9, 9)] [(0, 0, 9, 4)] = [[Fin (1 / 2)]] \<and>
   (0 :: nat) \<in> set [0]"
  using calc_anchor_match_best_positive [of "[(0, 0, 9, 9)]" "[(0, 0, 9, 4)]" 1
     match_thresh_hi_default match_thresh_lo_default "[0]" "[]" "[(0, 0, 9, 4)]" 0 0]
  by (simp add: eval_overlap eval_match)

section \<open>The regression targets\<close>

lemma calc_delta_single: "calc_delta [b] [r] std = Inr [spec_delta_row b r std]"
  by (simp add: calc_delta_def spec_delta_row_def Let_def)

text \<open>
  C2: row \<open>i\<close> of the result of \<open>calc_delta\<close> is claimed to be the regression target of box
  \<open>i\<close>. For two boxes the four component vectors are concatenated and the flat result is
  viewed as two rows of four, so row \<open>0\<close> holds both \<open>x\<close> offsets and both \<open>y\<close> offsets: the
  code's result differs from the targets of the two boxes.
\<close>

theorem calc_delta_rows_mixed:
  "calc_delta [(0, 0, 2, 2), (0, 0, 4, 4)] [(1, 0, 3, 2), (0, 2, 4, 6)] (1, 1, 1, 1) =
     Inr [(Fin (1 / 2), Fin 0, Fin 0, Fin (1 / 2)), (Fin 0, Fin 0, Fin 0, Fin 0)] \<and>
   spec_delta_row (0, 0, 2, 2) (1, 0, 3, 2) (1, 1, 1, 1) = (Fin (1 / 2), Fin 0, Fin 0, Fin 0) \<and>
   spec_delta_row (0, 0, 4, 4) (0, 2, 4, 6) (1, 1, 1, 1) = (Fin 0, Fin (1 / 2), Fin 0, Fin 0)"
  by (simp add: calc_delta_def spec_delta_row_def col0_def col1_def col2_def col3_def Let_def)

section \<open>The concrete scenario\<close>

lemma scenario_anchors_list:
  "scenario_anchors =
    [(-2, -2, 2, 2), (-2, -1, 2, 3), (-2, 0, 2, 4), (-2, 1, 2, 5),
     (-1, -2, 3, 2), (-1, -1, 3, 3), (-1, 0, 3, 4), (-1, 1, 3, 5),
     (0, -2, 4, 2), (0, -1, 4, 3), (0, 0, 4, 4), (0, 1, 4, 5),
     (1, -2, 5, 2), (1, -1, 5, 3), (1, 0, 5, 4), (1, 1, 5, 5)]"
  by (simp add: scenario_anchors_def spec_box_def)

lemma upt_4: "[0..<4] = [0, 1, 2, 3]"
  by code_simp

lemma scenario_spec: "spec_anchors (4, 4) 1 [4] [1] 1 = scenario_anchors"
  by (simp add: spec_anchors_def spec_centers_def spec_strided_def spec_pairs_def spec_size_def
      scenario_anchors_def upt_4)

lemma scenario_overlaps:
  "calc_overlap scenario_anchors [(0, 0, 4, 4)] =
    [[Fin (9 / 41)], [Fin (6 / 19)], [Fin (3 / 7)], [Fin (6 / 19)],
     [Fin (6 / 19)], [Fin (8 / 17)], [Fin (2 / 3)], [Fin (8 / 17)],
     [Fin (3 / 7)], [Fin (2 / 3)], [Fin 1], [Fin (2 / 3)],
     [Fin (6 / 19)], [Fin (8 / 17)], [Fin (2 / 3)], [Fin (8 / 17)]]"
  by (simp add: scenario_anchors_list eval_overlap)

lemma scenario_match:
  "calc_anchor_match scenario_anchors [(0, 0, 4, 4)] 1
     match_thresh_hi_default match_thresh_lo_default =
   Inr ([10], [0], replicate 16 (0, 0, 4, 4))"
proof -
  have s: "map (scale_box 1) [(0, 0, 4, 4)] = [(0, 0, 4, 4)]"
    by (simp add: scale_box_def)
  have len: "length scenario_anchors = 16" "scenario_anchors \<noteq> []"
    by (simp_all add: scenario_anchors_list)
  show ?thesis
    unfolding calc_anchor_match_def Let_def s scenario_overlaps len(1)
    using len(2)
    by (simp add: columns_def index_put_def
      mask_put_def mask_select_def fgt_def match_thresh_hi_default_def
      match_thresh_lo_default_def eval_nat_numeral)
qed


lemma scenario_low:
  "filter (\<lambda>i. flt (calc_overlap scenario_anchors [scenario_anchors ! 10] ! i ! 0)
                   (Fin match_thresh_lo_default)) [0..<16] = [0]"
proof -
  have g: "scenario_anchors ! 10 = (0, 0, 4, 4)"
    by (simp add: scenario_anchors_list)
  have u: "[0..<16] = [0, 1, 2, 3, 4, 5, 6, 7, 8, 9, 10, 11, 12, 13, 14, 15]"
    by code_simp
  show ?thesis
    unfolding g scenario_overlaps u
    by (simp add: match_thresh_lo_default_def)
qed

lemma scenario_sizes:
  "list_all (\<lambda>b. col2 b - col0 b = 4 \<and> col3 b - col1 b = 4) scenario_anchors"
  by (simp add: scenario_anchors_list col0_def col1_def col2_def col3_def)

text \<open>
  C9: in the scenario, \<open>generate_anchors\<close> produces the 16 anchors of size \<open>4 \<times> 4\<close> centred
  on the grid positions; with the anchor of cell \<open>(2, 2)\<close> as the only ground-truth box and
  the default thresholds, \<open>calc_anchor_match\<close> returns the positive set \<open>{10}\<close>, the index
  of that anchor, and the negative set holds every anchor whose overlap is below \<open>0.3\<close>
  (anchor \<open>0\<close> alone).
\<close>

theorem scenario_4x4:
  "generate_anchors (4, 4) 1 [4] [1] 1 = Inr (map fin_box scenario_anchors) \<and>
   length scenario_anchors = 16 \<and>
   list_all (\<lambda>b. col2 b - col0 b = 4 \<and> col3 b - col1 b = 4) scenario_anchors \<and>
   scenario_anchors ! 10 = spec_box (2, 2) (4, 4) \<and>
   calc_anchor_match scenario_anchors [scenario_anchors ! 10] 1
     match_thresh_hi_default match_thresh_lo_default =
     Inr ([10], [0], replicate 16 (scenario_anchors ! 10)) \<and>
   filter (\<lambda>i. flt (calc_overlap scenario_anchors [scenario_anchors ! 10] ! i ! 0)
                   (Fin match_thresh_lo_default)) [0..<16] = [0]"
proof -
  have gen: "generate_anchors (4, 4) 1 [4] [1] 1 = Inr (map fin_box scenario_anchors)"
    using generate_anchors_spec_eq [of 1 1 "[1]" 4 4 "[4]"] by (simp add: scenario_spec)
  have g: "scenario_anchors ! 10 = (0, 0, 4, 4)"
    by (simp add: scenario_anchors_list)
  have c: "scenario_anchors ! 10 = spec_box (2, 2) (4, 4)"
    by (simp add: g spec_box_def)
  have len: "length scenario_anchors = 16"
    by (simp add: scenario_anchors_list)
  have m: "calc_anchor_match scenario_anchors [scenario_anchors ! 10] 1
     match_thresh_hi_default match_thresh_lo_default =
     Inr ([10], [0], replicate 16 (scenario_anchors ! 10))"
    unfolding g by (rule scenario_match)
  show ?thesis
    using gen len scenario_sizes c m scenario_low by blast
qed

end
